theory Spec2Isabelle
  imports Main
begin

section \<open>The XSLT viewer: live transformation pipeline and persisted buffers\<close>

text \<open>
  The development embeds \<^verbatim>\<open>src/app/components/XsltTransformer.tsx\<close>: the hook
  \<^verbatim>\<open>useLocalStorage\<close> and the component \<^verbatim>\<open>XsltTransformer\<close> with its callback
  \<^verbatim>\<open>performTransformation\<close>. The browser supplies the XML parser, the XSLT processor, the
  serializer, JSON and the key-value storage; they are parameters of the model (records of
  functions), and every place where one of them may throw is a branch.
\<close>

subsection \<open>Built-in sample data\<close>

definition sampleXML :: string where
  \<open>sampleXML =
     ''<?xml version="1.0" encoding="UTF-8"?>\<newline>'' @
     ''<catalog>\<newline>'' @
     ''  <book id="bk101">\<newline>'' @
     ''    <author>Gambardella, Matthew</author>\<newline>'' @
     ''    <title>XML Developer's Guide</title>\<newline>'' @
     ''    <genre>Computer</genre>\<newline>'' @
     ''    <price>44.95</price>\<newline>'' @
     ''    <publish_date>2000-10-01</publish_date>\<newline>'' @
     ''    <description>An in-depth look at creating applications with XML.</description>\<newline>'' @
     ''  </book>\<newline>'' @
     ''  <book id="bk102">\<newline>'' @
     ''    <author>Ralls, Kim</author>\<newline>'' @
     ''    <title>Midnight Rain</title>\<newline>'' @
     ''    <genre>Fantasy</genre>\<newline>'' @
     ''    <price>5.95</price>\<newline>'' @
     ''    <publish_date>2000-12-16</publish_date>\<newline>'' @
     ''    <description>A former architect battles corporate zombies.</description>\<newline>'' @
     ''  </book>\<newline>'' @
     ''</catalog>\<newline>''\<close>

definition sampleXSLT :: string where
  \<open>sampleXSLT =
     ''<?xml version="1.0" encoding="UTF-8"?>\<newline>'' @
     ''<xsl:stylesheet version="1.0" xmlns:xsl="http://www.w3.org/1999/XSL/Transform">\<newline>'' @
     ''<xsl:template match="/">\<newline>'' @
     ''  <html>\<newline>'' @
     ''  <head>\<newline>'' @
     ''    <style>\<newline>'' @
     ''      body { font-family: sans-serif; margin: 2rem; background-color: #ffffff; color: #111827; }\<newline>'' @
     ''      h1 { color: #005b96; }\<newline>'' @
     ''      table { width: 100%; border-collapse: collapse; }\<newline>'' @
     ''      th, td { padding: 0.5rem 0.75rem; border: 1px solid #d1d5db; text-align: left; }\<newline>'' @
     ''      th { background-color: #0072bc; color: white; }\<newline>'' @
     ''      tr:nth-child(even) { background-color: #f3f4f6; }\<newline>'' @
     ''    </style>\<newline>'' @
     ''  </head>\<newline>'' @
     ''  <body>\<newline>'' @
     ''    <h1>Book Catalog</h1>\<newline>'' @
     ''    <table>\<newline>'' @
     ''      <tr>\<newline>'' @
     ''        <th>Author</th>\<newline>'' @
     ''        <th>Title</th>\<newline>'' @
     ''        <th>Genre</th>\<newline>'' @
     ''        <th>Price</th>\<newline>'' @
     ''      </tr>\<newline>'' @
     ''      <xsl:for-each select="catalog/book">\<newline>'' @
     ''      <tr>\<newline>'' @
     ''        <td><xsl:value-of select="author"/></td>\<newline>'' @
     ''        <td><xsl:value-of select="title"/></td>\<newline>'' @
     ''        <td><xsl:value-of select="genre"/></td>\<newline>'' @
     ''        <td>$<xsl:value-of select="price"/></td>\<newline>'' @
     ''      </tr>\<newline>'' @
     ''      </xsl:for-each>\<newline>'' @
     ''    </table>\<newline>'' @
     ''  </body>\<newline>'' @
     ''  </html>\<newline>'' @
     ''</xsl:template>\<newline>'' @
     ''</xsl:stylesheet>\<newline>''\<close>

subsection \<open>The parsed tree, as the DOM exposes it\<close>

text \<open>
  What the callback reads of a parsed document is its element tree: the elements with a
  given tag name, in document order, and the text content of an element. Attributes are
  kept as name/value pairs; comments and processing instructions play no part.
\<close>

datatype node =
    Element (tagName: string) (attributes: "(string \<times> string) list") (childNodes: "node list")
  | Text string

type_synonym document = "node list"

text \<open>The element itself followed by its element descendants, in tree order.\<close>

fun elementsOf :: "node \<Rightarrow> node list" where
  "elementsOf (Text s) = []"
| "elementsOf (Element n as cs) = Element n as cs # concat (map elementsOf cs)"

text \<open>\<^verbatim>\<open>doc.getElementsByTagName(name)\<close>: every element of the document whose qualified
  name is \<open>name\<close> (or every element, for \<^verbatim>\<open>"*"\<close>), wherever it sits in the tree.\<close>

definition getElementsByTagName :: "document \<Rightarrow> string \<Rightarrow> node list" where
  "getElementsByTagName doc name =
     filter (\<lambda>e. name = ''*'' \<or> tagName e = name) (concat (map elementsOf doc))"

text \<open>\<^verbatim>\<open>node.textContent\<close>: the concatenated text of the descendants.\<close>

fun textContent :: "node \<Rightarrow> string" where
  "textContent (Text s) = s"
| "textContent (Element n as cs) = concat (map textContent cs)"

subsection \<open>The host engine\<close>

text \<open>A thrown value, read by the handler through its \<^verbatim>\<open>message\<close> property.\<close>

datatype thrown = Error (message: string)

text \<open>
  The platform capabilities used by the callback.
  \<^item> \<open>parseFromString\<close> is \<^verbatim>\<open>new DOMParser().parseFromString(text, "application/xml")\<close>:
    it always returns a document; for a text that is not well-formed the document holds a
    \<^verbatim>\<open>parsererror\<close> element describing the error.
  \<^item> \<open>isWellFormedXml\<close> is the parser's own verdict on the text. The DOM interface does not
    return it, and the callback never reads it.
  \<^item> \<open>importStylesheet\<close> and \<open>transformToDocument\<close> belong to a fresh \<^verbatim>\<open>XSLTProcessor\<close>
    created in each run, so the transformation is a function of the imported stylesheet and
    the source document; both may throw, and the transformation may return \<^verbatim>\<open>null\<close>.
  \<^item> \<open>serializeToString\<close> is \<^verbatim>\<open>new XMLSerializer().serializeToString(doc)\<close>.
\<close>

record engine =
  parseFromString :: "string \<Rightarrow> document"
  isWellFormedXml :: "string \<Rightarrow> bool"
  importStylesheet :: "document \<Rightarrow> thrown + unit"
  transformToDocument :: "document \<Rightarrow> document \<Rightarrow> thrown + document option"
  serializeToString :: "document \<Rightarrow> thrown + string"

text \<open>The calls a run makes to the parser, the processor and the serializer, in the order
  it makes them.\<close>

datatype host_call =
    ParseFromString string
  | ImportStylesheet
  | TransformToDocument
  | SerializeToString

subsection \<open>The component state and one run of the pipeline\<close>

record component_state =
  xmlCode :: string
  xsltCode :: string
  "output" :: string
  error :: "string option"

text \<open>
  The \<^verbatim>\<open>try\<close> block of \<^verbatim>\<open>performTransformation\<close> (lines 122-147): \<open>Inl\<close> is the value
  thrown, \<open>Inr\<close> the serialized result. Both texts are parsed before either tree is checked.
\<close>

definition tryBlock :: "engine \<Rightarrow> string \<Rightarrow> string \<Rightarrow> (thrown + string) \<times> host_call list" where
  "tryBlock eng xml xslt =
     (let xmlDoc = parseFromString eng xml;
          xsltDoc = parseFromString eng xslt;
          parsed = [ParseFromString xml, ParseFromString xslt]
      in
        if length (getElementsByTagName xmlDoc ''parsererror'') > 0 then
          (Inl (Error (''Invalid XML: '' @
                  textContent (getElementsByTagName xmlDoc ''parsererror'' ! 0))), parsed)
        else if length (getElementsByTagName xsltDoc ''parsererror'') > 0 then
          (Inl (Error (''Invalid XSLT: '' @
                  textContent (getElementsByTagName xsltDoc ''parsererror'' ! 0))), parsed)
        else
          (case importStylesheet eng xsltDoc of
             Inl e \<Rightarrow> (Inl e, parsed @ [ImportStylesheet])
           | Inr u \<Rightarrow>
              (case transformToDocument eng xsltDoc xmlDoc of
                 Inl e \<Rightarrow> (Inl e, parsed @ [ImportStylesheet, TransformToDocument])
               | Inr None \<Rightarrow>
                   (Inl (Error ''Transformation failed. The result document is null. Check XSLT for errors.''),
                    parsed @ [ImportStylesheet, TransformToDocument])
               | Inr (Some resultDoc) \<Rightarrow>
                  (case serializeToString eng resultDoc of
                     Inl e \<Rightarrow>
                       (Inl e, parsed @ [ImportStylesheet, TransformToDocument, SerializeToString])
                   | Inr resultString \<Rightarrow>
                       (Inr resultString,
                        parsed @ [ImportStylesheet, TransformToDocument, SerializeToString])))))"

text \<open>
  The debounced callback itself (lines 115-153), as one step on the component state,
  together with the host calls it made. A buffer is falsy exactly when it is the empty string.
\<close>

definition performTransformation :: "engine \<Rightarrow> component_state \<Rightarrow> component_state \<times> host_call list" where
  "performTransformation eng st =
     (if xmlCode st = [] \<or> xsltCode st = [] then
        (st\<lparr>output := [], error := None\<rparr>, [])
      else
        (case tryBlock eng (xmlCode st) (xsltCode st) of
           (Inr resultString, calls) \<Rightarrow> (st\<lparr>output := resultString, error := None\<rparr>, calls)
         | (Inl e, calls) \<Rightarrow>
             (st\<lparr>error := Some (''Transformation Error: '' @ message e), output := []\<rparr>, calls)))"

subsection \<open>Persisted buffers\<close>

type_synonym storage = "string \<rightharpoonup> string"

text \<open>
  What \<^verbatim>\<open>JSON.parse\<close> returns for a stored text: a string, or some other JSON value
  (\<^verbatim>\<open>null\<close>, a number, an object, ...), kept as the text that denotes it. The hook hands
  either on unchanged.
\<close>

datatype js_value = JsString string | JsOther string

text \<open>
  The environment of \<^verbatim>\<open>useLocalStorage\<close>: whether \<^verbatim>\<open>window\<close> exists, whether reading or
  writing \<^verbatim>\<open>window.localStorage\<close> throws, and JSON. The setter is only ever called with a
  string (the editor's \<^verbatim>\<open>onChange\<close> and lines 170-178), where \<^verbatim>\<open>JSON.stringify\<close> is
  total and the argument is never a function.
\<close>

record platform =
  windowDefined :: bool
  getItemThrows :: "string \<Rightarrow> bool"
  setItemThrows :: "string \<Rightarrow> string \<Rightarrow> bool"
  JSON_parse :: "string \<Rightarrow> thrown + js_value"
  JSON_stringify :: "string \<Rightarrow> string"

text \<open>
  The initializer passed to \<^verbatim>\<open>useState\<close> (lines 80-91). A stored text that is absent or
  empty gives the initial value, and so does an exception of \<^verbatim>\<open>getItem\<close> or
  \<^verbatim>\<open>JSON.parse\<close>; otherwise the result is whatever \<^verbatim>\<open>JSON.parse\<close> returned.
\<close>

definition initialStoredValue :: "platform \<Rightarrow> storage \<Rightarrow> string \<Rightarrow> js_value \<Rightarrow> js_value" where
  "initialStoredValue p store key initialValue =
     (if \<not> windowDefined p then initialValue
      else if getItemThrows p key then initialValue
      else (case store key of
              None \<Rightarrow> initialValue
            | Some item \<Rightarrow>
                if item = [] then initialValue
                else (case JSON_parse p item of
                        Inl e \<Rightarrow> initialValue
                      | Inr v \<Rightarrow> v)))"

text \<open>
  \<^verbatim>\<open>setValue\<close> (lines 93-103) on the pair of the in-memory value and the storage: the
  in-memory value is set first; a throwing write is caught and leaves the storage as it was.
\<close>

definition setValue :: "platform \<Rightarrow> string \<Rightarrow> string \<Rightarrow> string \<times> storage \<Rightarrow> string \<times> storage" where
  "setValue p key v s =
     (let valueToStore = v in
      if windowDefined p then
        (if setItemThrows p key (JSON_stringify p valueToStore) then (valueToStore, snd s)
         else (valueToStore, (snd s)(key \<mapsto> JSON_stringify p valueToStore)))
      else (valueToStore, snd s))"

text \<open>The two buffers at first render (lines 110-111).\<close>

definition initialXmlCode :: "platform \<Rightarrow> storage \<Rightarrow> js_value" where
  "initialXmlCode p store = initialStoredValue p store ''xmlCode'' (JsString sampleXML)"

definition initialXsltCode :: "platform \<Rightarrow> storage \<Rightarrow> js_value" where
  "initialXsltCode p store = initialStoredValue p store ''xsltCode'' (JsString sampleXSLT)"

text \<open>
  The component at first render (lines 110-113). Its buffers are declared as strings, and
  the pipeline above is the component with string buffers; \<open>None\<close> is the case where a
  stored entry decoded to a value that is no string.
\<close>

definition initialState :: "platform \<Rightarrow> storage \<Rightarrow> component_state option" where
  "initialState p store =
     (case initialXmlCode p store of
        JsOther x \<Rightarrow> None
      | JsString x \<Rightarrow>
          (case initialXsltCode p store of
             JsOther y \<Rightarrow> None
           | JsString y \<Rightarrow> Some \<lparr>xmlCode = x, xsltCode = y, output = [], error = None\<rparr>))"

text \<open>The two setters returned by the hook, on the component state and the storage.\<close>

definition setXmlCode :: "platform \<Rightarrow> string \<Rightarrow> component_state \<times> storage \<Rightarrow> component_state \<times> storage" where
  "setXmlCode p v cs =
     (let r = setValue p ''xmlCode'' v (xmlCode (fst cs), snd cs)
      in ((fst cs)\<lparr>xmlCode := fst r\<rparr>, snd r))"

definition setXsltCode :: "platform \<Rightarrow> string \<Rightarrow> component_state \<times> storage \<Rightarrow> component_state \<times> storage" where
  "setXsltCode p v cs =
     (let r = setValue p ''xsltCode'' v (xsltCode (fst cs), snd cs)
      in ((fst cs)\<lparr>xsltCode := fst r\<rparr>, snd r))"

subsection \<open>Debounced scheduling of the run\<close>

text \<open>
  Modelled from the spec: the debounce timer of \<^verbatim>\<open>useDebouncedCallback\<close> (package
  \<^verbatim>\<open>use-debounce\<close>, imported at line 6), whose code is not among the sources. The source
  gives the callback, the quiet period of 300 ms (line 153) and the effect that calls the
  debounced callback whenever a buffer changes (lines 155-157). The timer follows sections
  4.1, 5 and 9 of the specification: there is a single pending timer; each edit resets it
  to fire one quiet period later; a timer that is reached without having been reset fires
  one run of the pipeline, on the buffers as they are at that moment. Time is counted in
  milliseconds.
\<close>

definition quietPeriod :: nat where
  "quietPeriod = 300"

text \<open>An edit changes one buffer; the in-memory effect of the setter is the new value.\<close>

datatype edit = EditXml string | EditXslt string

fun applyEdit :: "edit \<Rightarrow> component_state \<Rightarrow> component_state" where
  "applyEdit (EditXml v) c = c\<lparr>xmlCode := v\<rparr>"
| "applyEdit (EditXslt v) c = c\<lparr>xsltCode := v\<rparr>"

text \<open>
  The component with its timer: the time at which the pending run is due, if one is
  pending, and the buffers read by each run executed so far, oldest first.
\<close>

record scheduler =
  component :: component_state
  pendingRun :: "nat option"
  completedRuns :: "(string \<times> string) list"

text \<open>Modelled from the spec: the timer of \<^verbatim>\<open>use-debounce\<close> when the clock reaches \<open>now\<close>;
  a pending run that is due executes, once.\<close>

definition elapse :: "engine \<Rightarrow> nat \<Rightarrow> scheduler \<Rightarrow> scheduler" where
  "elapse eng now s =
     (case pendingRun s of
        None \<Rightarrow> s
      | Some due \<Rightarrow>
          if due \<le> now then
            s\<lparr>component := fst (performTransformation eng (component s)),
              pendingRun := None,
              completedRuns := completedRuns s @ [(xmlCode (component s), xsltCode (component s))]\<rparr>
          else s)"

text \<open>Modelled from the spec: the timer of \<^verbatim>\<open>use-debounce\<close> at an edit; the buffer
  changes and the single timer is set anew.\<close>

definition onEdit :: "engine \<Rightarrow> nat \<times> edit \<Rightarrow> scheduler \<Rightarrow> scheduler" where
  "onEdit eng ev s =
     (let s' = elapse eng (fst ev) s
      in s'\<lparr>component := applyEdit (snd ev) (component s'),
            pendingRun := Some (fst ev + quietPeriod)\<rparr>)"

fun onEdits :: "engine \<Rightarrow> (nat \<times> edit) list \<Rightarrow> scheduler \<Rightarrow> scheduler" where
  "onEdits eng [] s = s"
| "onEdits eng (ev # evs) s = onEdits eng evs (onEdit eng ev s)"

text \<open>
  A burst: timed edits in order, each less than one quiet period after the one before
  (\<open>t\<close> is the time of the edit that precedes the list).
\<close>

fun closelySpaced :: "nat \<Rightarrow> (nat \<times> edit) list \<Rightarrow> bool" where
  "closelySpaced t [] = True"
| "closelySpaced t (ev # evs) = (t \<le> fst ev \<and> fst ev < t + quietPeriod \<and> closelySpaced (fst ev) evs)"

fun lastEditTime :: "nat \<Rightarrow> (nat \<times> edit) list \<Rightarrow> nat" where
  "lastEditTime t [] = t"
| "lastEditTime t (ev # evs) = lastEditTime (fst ev) evs"

fun applyEdits :: "(nat \<times> edit) list \<Rightarrow> component_state \<Rightarrow> component_state" where
  "applyEdits [] c = c"
| "applyEdits (ev # evs) c = applyEdits evs (applyEdit (snd ev) c)"

subsection \<open>A small concrete host\<close>

text \<open>
  To run the pipeline on concrete texts a host is needed. This one knows a handful of
  texts and answers for them as a browser does: a well-formed text yields its element
  tree, any other text yields a document holding a \<^verbatim>\<open>parsererror\<close> element with the
  diagnostic; the processor returns \<^verbatim>\<open>null\<close> for a tree that is not a stylesheet.
\<close>

definition demoSheetText :: string where
  \<open>demoSheetText =
     ''<xsl:stylesheet version="1.0" xmlns:xsl="http://www.w3.org/1999/XSL/Transform">'' @
     ''<xsl:template match="/"><out/></xsl:template></xsl:stylesheet>''\<close>

definition demoSheetTree :: document where
  "demoSheetTree =
     [Element ''xsl:stylesheet''
        [(''version'', ''1.0''), (''xmlns:xsl'', ''http://www.w3.org/1999/XSL/Transform'')]
        [Element ''xsl:template'' [(''match'', ''/'')] [Element ''out'' [] []]]]"

definition demoParse :: "string \<Rightarrow> document option" where
  "demoParse s =
     (if s = ''<a/>'' then Some [Element ''a'' [] []]
      else if s = ''<b/>'' then Some [Element ''b'' [] []]
      else if s = ''<parsererror/>'' then Some [Element ''parsererror'' [] []]
      else if s = ''<log><parsererror>disk full</parsererror></log>'' then
        Some [Element ''log'' [] [Element ''parsererror'' [] [Text ''disk full'']]]
      else if s = demoSheetText then Some demoSheetTree
      else None)"

definition errorDocument :: "string \<Rightarrow> document" where
  "errorDocument diagnostic =
     [Element ''parsererror''
        [(''xmlns'', ''http://www.mozilla.org/newlayout/xml/parsererror.xml'')]
        [Text diagnostic]]"

fun serializeNode :: "node \<Rightarrow> string" where
  \<open>serializeNode (Text s) =
     concat (map (\<lambda>c. if c = CHR ''<'' then ''&lt;'' else if c = CHR ''>'' then ''&gt;''
                       else if c = CHR ''&'' then ''&amp;'' else [c]) s)\<close>
| \<open>serializeNode (Element n as cs) =
     ''<'' @ n @ concat (map (\<lambda>kv. '' '' @ fst kv @ ''="'' @ snd kv @ ''"'') as) @
     (if cs = [] then ''/>''
      else ''>'' @ concat (map serializeNode cs) @ ''</'' @ n @ ''>'')\<close>

definition demo_engine :: engine where
  "demo_engine =
     \<lparr>parseFromString = (\<lambda>s. case demoParse s of
                                 Some d \<Rightarrow> d
                               | None \<Rightarrow> errorDocument ''XML Parsing Error: not well-formed''),
      isWellFormedXml = (\<lambda>s. demoParse s \<noteq> None),
      importStylesheet = (\<lambda>sheet. Inr ()),
      transformToDocument =
        (\<lambda>sheet doc. if sheet = demoSheetTree then Inr (Some [Element ''out'' [] []]) else Inr None),
      serializeToString = (\<lambda>d. Inr (concat (map serializeNode d)))\<rparr>"

text \<open>A browser whose storage never throws, with a JSON decoder that knows two encoded
  texts and rejects every other; and the same browser with a storage that is full.\<close>

definition demo_platform :: platform where
  \<open>demo_platform =
     \<lparr>windowDefined = True,
      getItemThrows = (\<lambda>key. False),
      setItemThrows = (\<lambda>key text. False),
      JSON_parse = (\<lambda>text. if text = ''"<a/>"'' then Inr (JsString ''<a/>'')
                            else if text = ''null'' then Inr (JsOther ''null'')
                            else Inl (Error ''Unexpected token'')),
      JSON_stringify = (\<lambda>v. ''"'' @ v @ ''"'')\<rparr>\<close>

definition full_platform :: platform where
  "full_platform = demo_platform\<lparr>setItemThrows := (\<lambda>key text. True)\<rparr>"

section \<open>Properties of one pipeline run\<close>

subsection \<open>Shared facts\<close>

lemma demo_parse_simps:
  "parseFromString demo_engine ''<a/>'' = [Element ''a'' [] []]"
  "parseFromString demo_engine ''<b/>'' = [Element ''b'' [] []]"
  "parseFromString demo_engine ''<parsererror/>'' = [Element ''parsererror'' [] []]"
  "parseFromString demo_engine ''<log><parsererror>disk full</parsererror></log>'' =
     [Element ''log'' [] [Element ''parsererror'' [] [Text ''disk full'']]]"
  "parseFromString demo_engine ''<a><b></a>'' =
     errorDocument ''XML Parsing Error: not well-formed''"
  "parseFromString demo_engine demoSheetText = demoSheetTree"
  by (simp_all add: demo_engine_def demoParse_def demoSheetText_def)

lemma demo_wellformed_simps:
  "isWellFormedXml demo_engine ''<a/>''"
  "isWellFormedXml demo_engine ''<b/>''"
  "isWellFormedXml demo_engine ''<parsererror/>''"
  "isWellFormedXml demo_engine ''<log><parsererror>disk full</parsererror></log>''"
  "\<not> isWellFormedXml demo_engine ''<a><b></a>''"
  "isWellFormedXml demo_engine demoSheetText"
  by (simp_all add: demo_engine_def demoParse_def demoSheetText_def)

lemma demo_marker_simps:
  "getElementsByTagName [Element ''a'' [] []] ''parsererror'' = []"
  "getElementsByTagName [Element ''b'' [] []] ''parsererror'' = []"
  "getElementsByTagName demoSheetTree ''parsererror'' = []"
  "getElementsByTagName [Element ''parsererror'' [] []] ''parsererror'' =
     [Element ''parsererror'' [] []]"
  "getElementsByTagName [Element ''log'' [] [Element ''parsererror'' [] [Text ''disk full'']]]
       ''parsererror'' = [Element ''parsererror'' [] [Text ''disk full'']]"
  "getElementsByTagName (errorDocument d) ''parsererror'' = errorDocument d"
  by (simp_all add: getElementsByTagName_def demoSheetTree_def errorDocument_def)

lemma demo_sheet_nonempty: "demoSheetText \<noteq> []"
  by (simp add: demoSheetText_def)

lemma demo_processor_simps:
  "importStylesheet demo_engine sheet = Inr ()"
  "transformToDocument demo_engine demoSheetTree doc = Inr (Some [Element ''out'' [] []])"
  "transformToDocument demo_engine [Element ''b'' [] []] doc = Inr None"
  "serializeToString demo_engine [Element ''out'' [] []] = Inr ''<out/>''"
  by (simp_all add: demo_engine_def demoSheetTree_def)

subsection \<open>Empty buffers\<close>

text \<open>
  C2. When at least one of the two buffers is the empty string, a run sets the output to
  the empty string and the error to null and calls neither the parser nor the processor
  nor the serializer (no parsing, no transformation), whatever the other buffer holds and
  whatever output or error was shown before.
\<close>

theorem C2_empty_buffer_short_circuit:
  assumes "xmlCode st = [] \<or> xsltCode st = []"
  shows "performTransformation eng st = (st\<lparr>output := [], error := None\<rparr>, [])"
  using assms by (simp add: performTransformation_def)

theorem C2_empty_buffer_witness:
  "performTransformation demo_engine
     \<lparr>xmlCode = [], xsltCode = ''<a><b></a>'', output = ''<p>old</p>'', error = Some ''stale''\<rparr>
   = (\<lparr>xmlCode = [], xsltCode = ''<a><b></a>'', output = [], error = None\<rparr>, [])"
  using C2_empty_buffer_short_circuit
    [of "\<lparr>xmlCode = [], xsltCode = ''<a><b></a>'', output = ''<p>old</p>'', error = Some ''stale''\<rparr>"
        demo_engine]
  by simp

subsection \<open>Parse failures\<close>

text \<open>
  C5. When both buffers are non-empty and the tree parsed from the document text holds a
  \<^verbatim>\<open>parsererror\<close> element, the run fails with the message
  \<^verbatim>\<open>Transformation Error: Invalid XML: \<close> followed by the text content of the first such
  element (the parser's diagnostic), and the output is cleared. Nothing is assumed of the
  stylesheet: the document is checked first, so the failure is the same when the stylesheet
  is malformed too. Both texts have been parsed by then, and nothing else was called.
\<close>

theorem C5_invalid_xml_reported_first:
  assumes "xmlCode st \<noteq> []" and "xsltCode st \<noteq> []"
    and "getElementsByTagName (parseFromString eng (xmlCode st)) ''parsererror'' = m # ms"
  shows "performTransformation eng st =
           (st\<lparr>output := [],
               error := Some (''Transformation Error: Invalid XML: '' @ textContent m)\<rparr>,
            [ParseFromString (xmlCode st), ParseFromString (xsltCode st)])"
  using assms by (simp add: performTransformation_def tryBlock_def Let_def)

theorem C5_invalid_xml_witness:
  "performTransformation demo_engine
     \<lparr>xmlCode = ''<a><b></a>'', xsltCode = ''<a><b></a>'', output = ''<p>old</p>'', error = None\<rparr>
   = (\<lparr>xmlCode = ''<a><b></a>'', xsltCode = ''<a><b></a>'', output = [],
       error = Some ''Transformation Error: Invalid XML: XML Parsing Error: not well-formed''\<rparr>,
      [ParseFromString ''<a><b></a>'', ParseFromString ''<a><b></a>''])"
  using C5_invalid_xml_reported_first
    [of "\<lparr>xmlCode = ''<a><b></a>'', xsltCode = ''<a><b></a>'', output = ''<p>old</p>'', error = None\<rparr>"
        demo_engine
        "Element ''parsererror''
           [(''xmlns'', ''http://www.mozilla.org/newlayout/xml/parsererror.xml'')]
           [Text ''XML Parsing Error: not well-formed'']"
        "[]"]
  by (simp add: demo_parse_simps demo_marker_simps) (simp add: errorDocument_def)

text \<open>
  C6, as amended. When both buffers are non-empty, the tree parsed from the document text
  holds no \<^verbatim>\<open>parsererror\<close> element and the tree parsed from the stylesheet text holds
  one, the run fails with the message \<^verbatim>\<open>Transformation Error: Invalid XSLT: \<close> followed by
  the text content of the first such element, and the output is cleared.
\<close>

theorem C6_invalid_xslt_reported:
  assumes "xmlCode st \<noteq> []" and "xsltCode st \<noteq> []"
    and "getElementsByTagName (parseFromString eng (xmlCode st)) ''parsererror'' = []"
    and "getElementsByTagName (parseFromString eng (xsltCode st)) ''parsererror'' = m # ms"
  shows "performTransformation eng st =
           (st\<lparr>output := [],
               error := Some (''Transformation Error: Invalid XSLT: '' @ textContent m)\<rparr>,
            [ParseFromString (xmlCode st), ParseFromString (xsltCode st)])"
  using assms by (simp add: performTransformation_def tryBlock_def Let_def)

theorem C6_invalid_xslt_witness:
  "performTransformation demo_engine
     \<lparr>xmlCode = ''<a/>'', xsltCode = ''<a><b></a>'', output = ''<p>old</p>'', error = None\<rparr>
   = (\<lparr>xmlCode = ''<a/>'', xsltCode = ''<a><b></a>'', output = [],
       error = Some ''Transformation Error: Invalid XSLT: XML Parsing Error: not well-formed''\<rparr>,
      [ParseFromString ''<a/>'', ParseFromString ''<a><b></a>''])"
  using C6_invalid_xslt_reported
    [of "\<lparr>xmlCode = ''<a/>'', xsltCode = ''<a><b></a>'', output = ''<p>old</p>'', error = None\<rparr>"
        demo_engine
        "Element ''parsererror''
           [(''xmlns'', ''http://www.mozilla.org/newlayout/xml/parsererror.xml'')]
           [Text ''XML Parsing Error: not well-formed'']"
        "[]"]
  by (simp add: demo_parse_simps demo_marker_simps) (simp add: errorDocument_def)

text \<open>
  The claim C6 as it is written asks only that the document text be well-formed. The text
  \<^verbatim>\<open><parsererror/>\<close> is well-formed, its tree holds an element of that name, and with a
  malformed stylesheet the run reports invalid XML, not invalid XSLT.
\<close>

theorem C6_wellformed_document_counterexample:
  "''<parsererror/>'' \<noteq> [] \<and> ''<a><b></a>'' \<noteq> []
   \<and> isWellFormedXml demo_engine ''<parsererror/>''
   \<and> getElementsByTagName (parseFromString demo_engine ''<a><b></a>'') ''parsererror'' \<noteq> []
   \<and> fst (performTransformation demo_engine
         \<lparr>xmlCode = ''<parsererror/>'', xsltCode = ''<a><b></a>'', output = [], error = None\<rparr>)
       = \<lparr>xmlCode = ''<parsererror/>'', xsltCode = ''<a><b></a>'', output = [],
          error = Some ''Transformation Error: Invalid XML: ''\<rparr>"
  by (simp add: performTransformation_def tryBlock_def Let_def
        demo_parse_simps demo_wellformed_simps demo_marker_simps)
     (simp add: errorDocument_def)

subsection \<open>Null result\<close>

text \<open>
  C7, as amended. When both buffers are non-empty, neither parsed tree holds a
  \<^verbatim>\<open>parsererror\<close> element, the stylesheet is imported without an exception and the
  transformation returns \<^verbatim>\<open>null\<close>, the run fails with the message
  \<^verbatim>\<open>Transformation Error: Transformation failed. The result document is null. Check XSLT for errors.\<close>
  and a cleared output; that message differs from every invalid-XML and every
  invalid-XSLT message, whatever their diagnostic.
\<close>

theorem C7_null_result_reported:
  assumes "xmlCode st \<noteq> []" and "xsltCode st \<noteq> []"
    and "getElementsByTagName (parseFromString eng (xmlCode st)) ''parsererror'' = []"
    and "getElementsByTagName (parseFromString eng (xsltCode st)) ''parsererror'' = []"
    and "importStylesheet eng (parseFromString eng (xsltCode st)) = Inr ()"
    and "transformToDocument eng (parseFromString eng (xsltCode st))
           (parseFromString eng (xmlCode st)) = Inr None"
  shows "performTransformation eng st =
           (st\<lparr>output := [],
               error := Some ''Transformation Error: Transformation failed. The result document is null. Check XSLT for errors.''\<rparr>,
            [ParseFromString (xmlCode st), ParseFromString (xsltCode st),
             ImportStylesheet, TransformToDocument])
         \<and> (\<forall>d. ''Transformation Error: Transformation failed. The result document is null. Check XSLT for errors.''
                  \<noteq> ''Transformation Error: Invalid XML: '' @ d
               \<and> ''Transformation Error: Transformation failed. The result document is null. Check XSLT for errors.''
                  \<noteq> ''Transformation Error: Invalid XSLT: '' @ d)"
proof
  show "performTransformation eng st =
           (st\<lparr>output := [],
               error := Some ''Transformation Error: Transformation failed. The result document is null. Check XSLT for errors.''\<rparr>,
            [ParseFromString (xmlCode st), ParseFromString (xsltCode st),
             ImportStylesheet, TransformToDocument])"
    using assms by (simp add: performTransformation_def tryBlock_def Let_def)
  show "\<forall>d. ''Transformation Error: Transformation failed. The result document is null. Check XSLT for errors.''
                  \<noteq> ''Transformation Error: Invalid XML: '' @ d
               \<and> ''Transformation Error: Transformation failed. The result document is null. Check XSLT for errors.''
                  \<noteq> ''Transformation Error: Invalid XSLT: '' @ d"
    by simp
qed

theorem C7_null_result_witness:
  "performTransformation demo_engine
     \<lparr>xmlCode = ''<a/>'', xsltCode = ''<b/>'', output = ''<p>old</p>'', error = None\<rparr>
   = (\<lparr>xmlCode = ''<a/>'', xsltCode = ''<b/>'', output = [],
       error = Some ''Transformation Error: Transformation failed. The result document is null. Check XSLT for errors.''\<rparr>,
      [ParseFromString ''<a/>'', ParseFromString ''<b/>'', ImportStylesheet, TransformToDocument])"
  using C7_null_result_reported
    [of "\<lparr>xmlCode = ''<a/>'', xsltCode = ''<b/>'', output = ''<p>old</p>'', error = None\<rparr>"
        demo_engine]
  by (simp add: demo_parse_simps demo_marker_simps demo_processor_simps)

text \<open>
  The claim C7 as it is written asks only that both texts be well-formed. With the
  well-formed document \<^verbatim>\<open><parsererror/>\<close> and a well-formed text that is no stylesheet,
  for which the processor returns \<^verbatim>\<open>null\<close>, the run stops at the document check and
  reports invalid XML.
\<close>

theorem C7_wellformed_document_counterexample:
  "''<parsererror/>'' \<noteq> [] \<and> ''<b/>'' \<noteq> []
   \<and> isWellFormedXml demo_engine ''<parsererror/>''
   \<and> isWellFormedXml demo_engine ''<b/>''
   \<and> importStylesheet demo_engine (parseFromString demo_engine ''<b/>'') = Inr ()
   \<and> transformToDocument demo_engine (parseFromString demo_engine ''<b/>'')
         (parseFromString demo_engine ''<parsererror/>'') = Inr None
   \<and> fst (performTransformation demo_engine
         \<lparr>xmlCode = ''<parsererror/>'', xsltCode = ''<b/>'', output = [], error = None\<rparr>)
       = \<lparr>xmlCode = ''<parsererror/>'', xsltCode = ''<b/>'', output = [],
          error = Some ''Transformation Error: Invalid XML: ''\<rparr>"
  by (simp add: performTransformation_def tryBlock_def Let_def
        demo_parse_simps demo_wellformed_simps demo_marker_simps demo_processor_simps)

subsection \<open>Success\<close>

text \<open>
  C1, as amended. When both buffers are non-empty, neither parsed tree holds a
  \<^verbatim>\<open>parsererror\<close> element, and the host accepts the pair (the stylesheet is imported
  without an exception, the transformation returns a result document and the serializer
  returns its markup), the run sets the output to that serialized markup and the error to
  null, after exactly five host calls: two parses, import, transform, serialize.
\<close>

theorem C1_success_payload:
  assumes "xmlCode st \<noteq> []" and "xsltCode st \<noteq> []"
    and "getElementsByTagName (parseFromString eng (xmlCode st)) ''parsererror'' = []"
    and "getElementsByTagName (parseFromString eng (xsltCode st)) ''parsererror'' = []"
    and "importStylesheet eng (parseFromString eng (xsltCode st)) = Inr ()"
    and "transformToDocument eng (parseFromString eng (xsltCode st))
           (parseFromString eng (xmlCode st)) = Inr (Some resultDoc)"
    and "serializeToString eng resultDoc = Inr resultString"
  shows "performTransformation eng st =
           (st\<lparr>output := resultString, error := None\<rparr>,
            [ParseFromString (xmlCode st), ParseFromString (xsltCode st),
             ImportStylesheet, TransformToDocument, SerializeToString])"
  using assms by (simp add: performTransformation_def tryBlock_def Let_def)

theorem C1_success_witness:
  "performTransformation demo_engine
     \<lparr>xmlCode = ''<a/>'', xsltCode = demoSheetText, output = [],
      error = Some ''Transformation Error: stale''\<rparr>
   = (\<lparr>xmlCode = ''<a/>'', xsltCode = demoSheetText, output = ''<out/>'', error = None\<rparr>,
      [ParseFromString ''<a/>'', ParseFromString demoSheetText,
       ImportStylesheet, TransformToDocument, SerializeToString])"
  using C1_success_payload
    [of "\<lparr>xmlCode = ''<a/>'', xsltCode = demoSheetText, output = [],
           error = Some ''Transformation Error: stale''\<rparr>"
        demo_engine "[Element ''out'' [] []]" "''<out/>''"]
  by (simp add: demo_parse_simps demo_marker_simps demo_processor_simps demo_sheet_nonempty)

text \<open>
  The claim C1 as it is written asks that both texts be well-formed and accepted by the
  host. The document \<^verbatim>\<open><parsererror/>\<close> is well-formed, the host imports the stylesheet,
  transforms the document and serializes the result, and yet the run reports invalid XML
  and leaves the output empty.
\<close>

theorem C1_wellformed_document_counterexample:
  "''<parsererror/>'' \<noteq> [] \<and> demoSheetText \<noteq> []
   \<and> isWellFormedXml demo_engine ''<parsererror/>''
   \<and> isWellFormedXml demo_engine demoSheetText
   \<and> importStylesheet demo_engine (parseFromString demo_engine demoSheetText) = Inr ()
   \<and> transformToDocument demo_engine (parseFromString demo_engine demoSheetText)
         (parseFromString demo_engine ''<parsererror/>'') = Inr (Some [Element ''out'' [] []])
   \<and> serializeToString demo_engine [Element ''out'' [] []] = Inr ''<out/>''
   \<and> fst (performTransformation demo_engine
         \<lparr>xmlCode = ''<parsererror/>'', xsltCode = demoSheetText, output = [], error = None\<rparr>)
       = \<lparr>xmlCode = ''<parsererror/>'', xsltCode = demoSheetText, output = [],
          error = Some ''Transformation Error: Invalid XML: ''\<rparr>"
  by (simp add: performTransformation_def tryBlock_def Let_def
        demo_parse_simps demo_wellformed_simps demo_marker_simps demo_processor_simps
        demo_sheet_nonempty)

subsection \<open>Detection by element name\<close>

text \<open>
  C10. Parse failure is detected by the name of an element anywhere in the parsed tree and
  by nothing else. So for a non-empty document text that the host parser accepts as
  well-formed and whose tree holds an element named \<^verbatim>\<open>parsererror\<close>, the run reports
  \<^verbatim>\<open>Transformation Error: Invalid XML: \<close> followed by that element's text and clears the
  output; and when the document's tree holds no such element, the same happens for a
  well-formed stylesheet text, reported as \<^verbatim>\<open>Invalid XSLT\<close>.
\<close>

theorem C10_element_named_parsererror_is_reported:
  "(xmlCode st \<noteq> [] \<and> xsltCode st \<noteq> [] \<and> isWellFormedXml eng (xmlCode st)
      \<and> getElementsByTagName (parseFromString eng (xmlCode st)) ''parsererror'' = m # ms
    \<longrightarrow> fst (performTransformation eng st) =
          st\<lparr>output := [],
             error := Some (''Transformation Error: Invalid XML: '' @ textContent m)\<rparr>)
   \<and> (xmlCode st \<noteq> [] \<and> xsltCode st \<noteq> [] \<and> isWellFormedXml eng (xsltCode st)
      \<and> getElementsByTagName (parseFromString eng (xmlCode st)) ''parsererror'' = []
      \<and> getElementsByTagName (parseFromString eng (xsltCode st)) ''parsererror'' = m # ms
    \<longrightarrow> fst (performTransformation eng st) =
          st\<lparr>output := [],
             error := Some (''Transformation Error: Invalid XSLT: '' @ textContent m)\<rparr>)"
  by (simp add: performTransformation_def tryBlock_def Let_def)

text \<open>
  Two runs on the concrete host: a well-formed log document with a nested
  \<^verbatim>\<open>parsererror\<close> element, which the host would transform and serialize, and a well-formed
  stylesheet text that is such an element.
\<close>

theorem C10_element_named_parsererror_witness:
  "isWellFormedXml demo_engine ''<log><parsererror>disk full</parsererror></log>''
   \<and> transformToDocument demo_engine (parseFromString demo_engine demoSheetText)
         (parseFromString demo_engine ''<log><parsererror>disk full</parsererror></log>'')
       = Inr (Some [Element ''out'' [] []])
   \<and> serializeToString demo_engine [Element ''out'' [] []] = Inr ''<out/>''
   \<and> fst (performTransformation demo_engine
         \<lparr>xmlCode = ''<log><parsererror>disk full</parsererror></log>'',
          xsltCode = demoSheetText, output = [], error = None\<rparr>)
       = \<lparr>xmlCode = ''<log><parsererror>disk full</parsererror></log>'',
          xsltCode = demoSheetText, output = [],
          error = Some ''Transformation Error: Invalid XML: disk full''\<rparr>
   \<and> isWellFormedXml demo_engine ''<parsererror/>''
   \<and> fst (performTransformation demo_engine
         \<lparr>xmlCode = ''<a/>'', xsltCode = ''<parsererror/>'', output = [], error = None\<rparr>)
       = \<lparr>xmlCode = ''<a/>'', xsltCode = ''<parsererror/>'', output = [],
          error = Some ''Transformation Error: Invalid XSLT: ''\<rparr>"
  using
    C10_element_named_parsererror_is_reported
      [of "\<lparr>xmlCode = ''<log><parsererror>disk full</parsererror></log>'',
             xsltCode = demoSheetText, output = [], error = None\<rparr>"
          demo_engine "Element ''parsererror'' [] [Text ''disk full'']" "[]"]
    C10_element_named_parsererror_is_reported
      [of "\<lparr>xmlCode = ''<a/>'', xsltCode = ''<parsererror/>'', output = [], error = None\<rparr>"
          demo_engine "Element ''parsererror'' [] []" "[]"]
  by (simp add: demo_parse_simps demo_wellformed_simps demo_marker_simps demo_processor_simps
        demo_sheet_nonempty)

subsection \<open>Output and error after a run\<close>

text \<open>
  C4. After any run, whatever the host did, the error is null or the output is the empty
  string: never both set. A run whose \<^verbatim>\<open>try\<close> block throws sets the error and clears the
  output; a run whose block returns sets the output to the returned string and the error to
  null. The output and error shown before the run have no influence on the state after it.
\<close>

theorem C4_output_error_exclusive:
  "(error (fst (performTransformation eng st)) = None
      \<or> output (fst (performTransformation eng st)) = [])
   \<and> (xmlCode st \<noteq> [] \<and> xsltCode st \<noteq> []
        \<and> fst (tryBlock eng (xmlCode st) (xsltCode st)) = Inl e
      \<longrightarrow> fst (performTransformation eng st) =
            st\<lparr>output := [], error := Some (''Transformation Error: '' @ message e)\<rparr>)
   \<and> (xmlCode st \<noteq> [] \<and> xsltCode st \<noteq> []
        \<and> fst (tryBlock eng (xmlCode st) (xsltCode st)) = Inr resultString
      \<longrightarrow> fst (performTransformation eng st) = st\<lparr>output := resultString, error := None\<rparr>)
   \<and> fst (performTransformation eng (st\<lparr>output := out0, error := err0\<rparr>))
       = fst (performTransformation eng st)"
  by (auto simp: performTransformation_def split: prod.splits sum.splits)

theorem C4_output_error_exclusive_witness:
  "fst (tryBlock demo_engine ''<a/>'' ''<b/>'')
     = Inl (Error ''Transformation failed. The result document is null. Check XSLT for errors.'')
   \<and> fst (performTransformation demo_engine
         \<lparr>xmlCode = ''<a/>'', xsltCode = ''<b/>'', output = ''<p>old</p>'', error = None\<rparr>)
       = \<lparr>xmlCode = ''<a/>'', xsltCode = ''<b/>'', output = [],
          error = Some ''Transformation Error: Transformation failed. The result document is null. Check XSLT for errors.''\<rparr>
   \<and> fst (tryBlock demo_engine ''<a/>'' demoSheetText) = Inr ''<out/>''
   \<and> fst (performTransformation demo_engine
         \<lparr>xmlCode = ''<a/>'', xsltCode = demoSheetText, output = [], error = Some ''stale''\<rparr>)
       = \<lparr>xmlCode = ''<a/>'', xsltCode = demoSheetText, output = ''<out/>'', error = None\<rparr>"
proof -
  have failing: "fst (tryBlock demo_engine ''<a/>'' ''<b/>'')
      = Inl (Error ''Transformation failed. The result document is null. Check XSLT for errors.'')"
    by (simp add: tryBlock_def Let_def demo_parse_simps demo_marker_simps demo_processor_simps)
  have returning: "fst (tryBlock demo_engine ''<a/>'' demoSheetText) = Inr ''<out/>''"
    by (simp add: tryBlock_def Let_def demo_parse_simps demo_marker_simps demo_processor_simps)
  show ?thesis
    using failing returning
      C4_output_error_exclusive
        [of demo_engine
            "\<lparr>xmlCode = ''<a/>'', xsltCode = ''<b/>'', output = ''<p>old</p>'', error = None\<rparr>"
            "Error ''Transformation failed. The result document is null. Check XSLT for errors.''"
            "[]" "None" "''<p>old</p>''"]
      C4_output_error_exclusive
        [of demo_engine
            "\<lparr>xmlCode = ''<a/>'', xsltCode = demoSheetText, output = [], error = Some ''stale''\<rparr>"
            "Error []" "''<out/>''" "Some ''stale''" "[]"]
    by (simp add: demo_sheet_nonempty)
qed

text \<open>
  C8. A run fails when its \<^verbatim>\<open>try\<close> block throws, whether the thrown value is one of
  the three errors the block raises itself or an exception of the host. The error shown is
  then the one string \<^verbatim>\<open>Transformation Error: \<close> followed by the message of the thrown
  value; conversely every error a run sets begins with that prefix and is built that way.
  The state holds nothing else about the failure: the field is a string or null.
\<close>

theorem C8_failure_message_prefix:
  "(xmlCode st \<noteq> [] \<and> xsltCode st \<noteq> []
        \<and> fst (tryBlock eng (xmlCode st) (xsltCode st)) = Inl e
      \<longrightarrow> error (fst (performTransformation eng st))
            = Some (''Transformation Error: '' @ message e))
   \<and> (error (fst (performTransformation eng st)) = Some msg
      \<longrightarrow> take (length ''Transformation Error: '') msg = ''Transformation Error: ''
          \<and> (\<exists>e'. fst (tryBlock eng (xmlCode st) (xsltCode st)) = Inl e'
                  \<and> msg = ''Transformation Error: '' @ message e'))"
  by (auto simp: performTransformation_def split: prod.splits sum.splits if_splits)

theorem C8_failure_message_prefix_witness:
  "error (fst (performTransformation demo_engine
       \<lparr>xmlCode = ''<a><b></a>'', xsltCode = ''<b/>'', output = [], error = None\<rparr>))
     = Some ''Transformation Error: Invalid XML: XML Parsing Error: not well-formed''
   \<and> take (length ''Transformation Error: '')
        ''Transformation Error: Invalid XML: XML Parsing Error: not well-formed''
       = ''Transformation Error: ''"
proof -
  have thrown: "fst (tryBlock demo_engine ''<a><b></a>'' ''<b/>'')
      = Inl (Error ''Invalid XML: XML Parsing Error: not well-formed'')"
    by (simp add: tryBlock_def Let_def demo_parse_simps demo_marker_simps)
       (simp add: errorDocument_def)
  have shown: "error (fst (performTransformation demo_engine
       \<lparr>xmlCode = ''<a><b></a>'', xsltCode = ''<b/>'', output = [], error = None\<rparr>))
     = Some ''Transformation Error: Invalid XML: XML Parsing Error: not well-formed''"
    using thrown
      C8_failure_message_prefix
        [of "\<lparr>xmlCode = ''<a><b></a>'', xsltCode = ''<b/>'', output = [], error = None\<rparr>"
            demo_engine "Error ''Invalid XML: XML Parsing Error: not well-formed''"
            "''Transformation Error: Invalid XML: XML Parsing Error: not well-formed''"]
    by simp
  show ?thesis
    using shown
      C8_failure_message_prefix
        [of "\<lparr>xmlCode = ''<a><b></a>'', xsltCode = ''<b/>'', output = [], error = None\<rparr>"
            demo_engine "Error ''Invalid XML: XML Parsing Error: not well-formed''"
            "''Transformation Error: Invalid XML: XML Parsing Error: not well-formed''"]
    by simp
qed

section \<open>Properties of the persisted buffers\<close>

lemma initialStoredValue_fallback:
  assumes "case store key of None \<Rightarrow> True | Some item \<Rightarrow> isl (JSON_parse p item)"
  shows "initialStoredValue p store key initialValue = initialValue"
  using assms by (auto simp: initialStoredValue_def split: option.splits sum.splits)

lemma setValue_written:
  assumes "windowDefined p" and "\<not> setItemThrows p key (JSON_stringify p v)"
  shows "setValue p key v s = (v, (snd s)(key \<mapsto> JSON_stringify p v))"
  using assms by (simp add: setValue_def)

lemma setValue_not_written:
  assumes "\<not> (windowDefined p \<and> \<not> setItemThrows p key (JSON_stringify p v))"
  shows "setValue p key v s = (v, snd s)"
  using assms by (auto simp: setValue_def)

lemma setValue_in_memory: "fst (setValue p key v s) = v"
  by (simp add: setValue_def)

text \<open>
  C9, as amended. At first render each buffer is read from the storage under its fixed
  key, \<^verbatim>\<open>xmlCode\<close> or \<^verbatim>\<open>xsltCode\<close>: when the entry is absent, or when \<^verbatim>\<open>JSON.parse\<close>
  throws on it, the buffer is the built-in sample and nothing else is reported. Every
  change of a buffer sets the in-memory value. In a browser whose storage takes the write,
  the change stores the JSON encoding of the new value under the same key and leaves the
  other entries alone; when the write throws (or there is no \<^verbatim>\<open>window\<close>), the exception is
  caught and the storage stays as it was.
\<close>

theorem C9_persisted_buffers:
  "((case store ''xmlCode'' of None \<Rightarrow> True | Some item \<Rightarrow> isl (JSON_parse p item))
      \<longrightarrow> initialXmlCode p store = JsString sampleXML)
   \<and> ((case store ''xsltCode'' of None \<Rightarrow> True | Some item \<Rightarrow> isl (JSON_parse p item))
      \<longrightarrow> initialXsltCode p store = JsString sampleXSLT)
   \<and> ((case store ''xmlCode'' of None \<Rightarrow> True | Some item \<Rightarrow> isl (JSON_parse p item))
        \<and> (case store ''xsltCode'' of None \<Rightarrow> True | Some item \<Rightarrow> isl (JSON_parse p item))
      \<longrightarrow> initialState p store
            = Some \<lparr>xmlCode = sampleXML, xsltCode = sampleXSLT, output = [], error = None\<rparr>)
   \<and> xmlCode (fst (setXmlCode p v (c, store))) = v
   \<and> xsltCode (fst (setXsltCode p v (c, store))) = v
   \<and> (windowDefined p \<and> \<not> setItemThrows p ''xmlCode'' (JSON_stringify p v)
      \<longrightarrow> setXmlCode p v (c, store)
            = (c\<lparr>xmlCode := v\<rparr>, store(''xmlCode'' \<mapsto> JSON_stringify p v)))
   \<and> (windowDefined p \<and> \<not> setItemThrows p ''xsltCode'' (JSON_stringify p v)
      \<longrightarrow> setXsltCode p v (c, store)
            = (c\<lparr>xsltCode := v\<rparr>, store(''xsltCode'' \<mapsto> JSON_stringify p v)))
   \<and> (\<not> (windowDefined p \<and> \<not> setItemThrows p ''xmlCode'' (JSON_stringify p v))
      \<longrightarrow> setXmlCode p v (c, store) = (c\<lparr>xmlCode := v\<rparr>, store))
   \<and> (\<not> (windowDefined p \<and> \<not> setItemThrows p ''xsltCode'' (JSON_stringify p v))
      \<longrightarrow> setXsltCode p v (c, store) = (c\<lparr>xsltCode := v\<rparr>, store))"
proof -
  have read_xml: "(case store ''xmlCode'' of None \<Rightarrow> True | Some item \<Rightarrow> isl (JSON_parse p item))
      \<longrightarrow> initialXmlCode p store = JsString sampleXML"
    by (simp add: initialXmlCode_def initialStoredValue_fallback)
  have read_xslt: "(case store ''xsltCode'' of None \<Rightarrow> True | Some item \<Rightarrow> isl (JSON_parse p item))
      \<longrightarrow> initialXsltCode p store = JsString sampleXSLT"
    by (simp add: initialXsltCode_def initialStoredValue_fallback)
  have read_both: "(case store ''xmlCode'' of None \<Rightarrow> True | Some item \<Rightarrow> isl (JSON_parse p item))
        \<and> (case store ''xsltCode'' of None \<Rightarrow> True | Some item \<Rightarrow> isl (JSON_parse p item))
      \<longrightarrow> initialState p store
            = Some \<lparr>xmlCode = sampleXML, xsltCode = sampleXSLT, output = [], error = None\<rparr>"
    using read_xml read_xslt by (simp add: initialState_def)
  have mem_xml: "xmlCode (fst (setXmlCode p v (c, store))) = v"
    by (simp add: setXmlCode_def Let_def setValue_in_memory)
  have mem_xslt: "xsltCode (fst (setXsltCode p v (c, store))) = v"
    by (simp add: setXsltCode_def Let_def setValue_in_memory)
  have write_xml: "windowDefined p \<and> \<not> setItemThrows p ''xmlCode'' (JSON_stringify p v)
      \<longrightarrow> setXmlCode p v (c, store)
            = (c\<lparr>xmlCode := v\<rparr>, store(''xmlCode'' \<mapsto> JSON_stringify p v))"
    by (simp add: setXmlCode_def Let_def setValue_written)
  have write_xslt: "windowDefined p \<and> \<not> setItemThrows p ''xsltCode'' (JSON_stringify p v)
      \<longrightarrow> setXsltCode p v (c, store)
            = (c\<lparr>xsltCode := v\<rparr>, store(''xsltCode'' \<mapsto> JSON_stringify p v))"
    by (simp add: setXsltCode_def Let_def setValue_written)
  have lost_xml: "\<not> (windowDefined p \<and> \<not> setItemThrows p ''xmlCode'' (JSON_stringify p v))
      \<longrightarrow> setXmlCode p v (c, store) = (c\<lparr>xmlCode := v\<rparr>, store)"
    by (simp add: setXmlCode_def Let_def setValue_not_written)
  have lost_xslt: "\<not> (windowDefined p \<and> \<not> setItemThrows p ''xsltCode'' (JSON_stringify p v))
      \<longrightarrow> setXsltCode p v (c, store) = (c\<lparr>xsltCode := v\<rparr>, store)"
    by (simp add: setXsltCode_def Let_def setValue_not_written)
  from read_xml read_xslt read_both mem_xml mem_xslt write_xml write_xslt lost_xml lost_xslt
  show ?thesis by blast
qed

text \<open>
  On the concrete browser: a storage whose \<^verbatim>\<open>xmlCode\<close> entry is not JSON and that has no
  \<^verbatim>\<open>xsltCode\<close> entry gives both samples; typing \<^verbatim>\<open><a/>\<close> into the XML buffer stores its
  JSON encoding under \<^verbatim>\<open>xmlCode\<close>; with a full storage the same edit changes the buffer
  and leaves the old entry.
\<close>

theorem C9_persisted_buffers_witness:
  \<open>initialState demo_platform [''xmlCode'' \<mapsto> ''{"a":'']
     = Some \<lparr>xmlCode = sampleXML, xsltCode = sampleXSLT, output = [], error = None\<rparr>
   \<and> setXmlCode demo_platform ''<a/>''
         (\<lparr>xmlCode = sampleXML, xsltCode = sampleXSLT, output = [], error = None\<rparr>,
          [''xmlCode'' \<mapsto> ''{"a":''])
       = (\<lparr>xmlCode = ''<a/>'', xsltCode = sampleXSLT, output = [], error = None\<rparr>,
          [''xmlCode'' \<mapsto> ''"<a/>"''])
   \<and> setXmlCode full_platform ''<a/>''
         (\<lparr>xmlCode = sampleXML, xsltCode = sampleXSLT, output = [], error = None\<rparr>,
          [''xmlCode'' \<mapsto> ''{"a":''])
       = (\<lparr>xmlCode = ''<a/>'', xsltCode = sampleXSLT, output = [], error = None\<rparr>,
          [''xmlCode'' \<mapsto> ''{"a":''])\<close>
proof -
  have corrupt: \<open>isl (JSON_parse demo_platform ''{"a":'')\<close>
    by (simp add: demo_platform_def)
  have accepts: \<open>windowDefined demo_platform
      \<and> \<not> setItemThrows demo_platform ''xmlCode'' (JSON_stringify demo_platform ''<a/>'')\<close>
    by (simp add: demo_platform_def)
  have encoded: \<open>JSON_stringify demo_platform ''<a/>'' = ''"<a/>"''\<close>
    by (simp add: demo_platform_def)
  have refuses: \<open>setItemThrows full_platform ''xmlCode'' (JSON_stringify full_platform ''<a/>'')\<close>
    by (simp add: full_platform_def)
  have first: \<open>initialState demo_platform [''xmlCode'' \<mapsto> ''{"a":'']
     = Some \<lparr>xmlCode = sampleXML, xsltCode = sampleXSLT, output = [], error = None\<rparr>\<close>
    using corrupt
      C9_persisted_buffers [where p = demo_platform and store = \<open>[''xmlCode'' \<mapsto> ''{"a":'']\<close>]
    by simp
  have landed: \<open>setXmlCode demo_platform ''<a/>''
         (\<lparr>xmlCode = sampleXML, xsltCode = sampleXSLT, output = [], error = None\<rparr>,
          [''xmlCode'' \<mapsto> ''{"a":''])
       = (\<lparr>xmlCode = ''<a/>'', xsltCode = sampleXSLT, output = [], error = None\<rparr>,
          [''xmlCode'' \<mapsto> ''"<a/>"''])\<close>
    using accepts encoded
      C9_persisted_buffers [where p = demo_platform and store = \<open>[''xmlCode'' \<mapsto> ''{"a":'']\<close>
        and v = \<open>''<a/>''\<close>
        and c = \<open>\<lparr>xmlCode = sampleXML, xsltCode = sampleXSLT, output = [], error = None\<rparr>\<close>]
    by simp
  have lost: \<open>setXmlCode full_platform ''<a/>''
         (\<lparr>xmlCode = sampleXML, xsltCode = sampleXSLT, output = [], error = None\<rparr>,
          [''xmlCode'' \<mapsto> ''{"a":''])
       = (\<lparr>xmlCode = ''<a/>'', xsltCode = sampleXSLT, output = [], error = None\<rparr>,
          [''xmlCode'' \<mapsto> ''{"a":''])\<close>
    using refuses
      C9_persisted_buffers [where p = full_platform and store = \<open>[''xmlCode'' \<mapsto> ''{"a":'']\<close>
        and v = \<open>''<a/>''\<close>
        and c = \<open>\<lparr>xmlCode = sampleXML, xsltCode = sampleXSLT, output = [], error = None\<rparr>\<close>]
    by simp
  from first landed lost show ?thesis by blast
qed

text \<open>
  The claim C9 as it is written says that every change writes the encoded value to the
  storage. In a browser whose storage is full, \<^verbatim>\<open>setItem\<close> throws, lines 100-102 catch
  the exception, and after typing \<^verbatim>\<open><a/>\<close> the in-memory buffer holds the new text while
  the storage has no entry under \<^verbatim>\<open>xmlCode\<close>.
\<close>

theorem C9_full_storage_counterexample:
  \<open>windowDefined full_platform
   \<and> JSON_stringify full_platform ''<a/>'' = ''"<a/>"''
   \<and> xmlCode (fst (setXmlCode full_platform ''<a/>''
         (\<lparr>xmlCode = [], xsltCode = [], output = [], error = None\<rparr>, Map.empty))) = ''<a/>''
   \<and> snd (setXmlCode full_platform ''<a/>''
         (\<lparr>xmlCode = [], xsltCode = [], output = [], error = None\<rparr>, Map.empty)) ''xmlCode''
       = None\<close>
  by (simp add: setXmlCode_def setValue_def Let_def full_platform_def demo_platform_def)

section \<open>Properties of the debounced scheduling\<close>

lemma elapse_before_due:
  assumes "pendingRun s = Some due" and "now < due"
  shows "elapse eng now s = s"
  using assms by (simp add: elapse_def)

lemma elapse_when_due:
  assumes "pendingRun s = Some due" and "due \<le> now"
  shows "elapse eng now s =
           s\<lparr>component := fst (performTransformation eng (component s)),
             pendingRun := None,
             completedRuns := completedRuns s @ [(xmlCode (component s), xsltCode (component s))]\<rparr>"
  using assms by (simp add: elapse_def)

lemma onEdit_supersedes:
  assumes "case pendingRun s of None \<Rightarrow> True | Some due \<Rightarrow> fst ev < due"
  shows "onEdit eng ev s =
           s\<lparr>component := applyEdit (snd ev) (component s),
             pendingRun := Some (fst ev + quietPeriod)\<rparr>"
  using assms by (simp add: onEdit_def elapse_def Let_def split: option.splits)

text \<open>While the edits keep coming within the quiet period, nothing runs: the buffers
  change and the one timer moves.\<close>

lemma onEdits_burst:
  assumes "closelySpaced t evs" and "pendingRun s = Some (t + quietPeriod)"
  shows "onEdits eng evs s =
           s\<lparr>component := applyEdits evs (component s),
             pendingRun := Some (lastEditTime t evs + quietPeriod)\<rparr>"
  using assms
proof (induction evs arbitrary: t s)
  case Nil
  then show ?case by simp
next
  case (Cons ev evs)
  let ?s' = "s\<lparr>component := applyEdit (snd ev) (component s),
               pendingRun := Some (fst ev + quietPeriod)\<rparr>"
  from Cons.prems have step: "onEdit eng ev s = ?s'"
    by (intro onEdit_supersedes) simp
  from Cons.prems have spaced: "closelySpaced (fst ev) evs"
    by simp
  have "onEdits eng evs ?s' =
          ?s'\<lparr>component := applyEdits evs (component ?s'),
               pendingRun := Some (lastEditTime (fst ev) evs + quietPeriod)\<rparr>"
    by (rule Cons.IH [OF spaced]) simp
  with step show ?case by simp
qed

text \<open>
  C3. Take a pending state in which no run is due before the first edit, a first edit at
  time \<open>t0\<close> and further edits to either buffer, each less than the quiet period of 300 ms
  after the one before. During the burst no run executes: afterwards the buffers hold the
  final values and one timer is pending, due 300 ms after the last edit; an earlier pending
  run has been replaced, not kept beside it. Until that time still nothing runs. Once it is
  reached, exactly one run has executed; it read the final values of both buffers, and the
  component state is the result of the pipeline on them.
\<close>

theorem C3_burst_runs_once_on_final_buffers:
  assumes "case pendingRun s of None \<Rightarrow> True | Some due \<Rightarrow> t0 < due"
    and "closelySpaced t0 evs"
  shows "onEdits eng ((t0, e0) # evs) s =
           s\<lparr>component := applyEdits ((t0, e0) # evs) (component s),
             pendingRun := Some (lastEditTime t0 evs + quietPeriod)\<rparr>
         \<and> (now < lastEditTime t0 evs + quietPeriod \<longrightarrow>
              elapse eng now (onEdits eng ((t0, e0) # evs) s) = onEdits eng ((t0, e0) # evs) s)
         \<and> (lastEditTime t0 evs + quietPeriod \<le> now \<longrightarrow>
              elapse eng now (onEdits eng ((t0, e0) # evs) s) =
                s\<lparr>component :=
                     fst (performTransformation eng (applyEdits ((t0, e0) # evs) (component s))),
                  pendingRun := None,
                  completedRuns := completedRuns s @
                     [(xmlCode (applyEdits ((t0, e0) # evs) (component s)),
                       xsltCode (applyEdits ((t0, e0) # evs) (component s)))]\<rparr>)"
proof -
  let ?s1 = "s\<lparr>component := applyEdit e0 (component s), pendingRun := Some (t0 + quietPeriod)\<rparr>"
  let ?end = "s\<lparr>component := applyEdits ((t0, e0) # evs) (component s),
                pendingRun := Some (lastEditTime t0 evs + quietPeriod)\<rparr>"
  from assms(1) have first: "onEdit eng (t0, e0) s = ?s1"
    by (simp add: onEdit_def elapse_def Let_def split: option.splits)
  have "onEdits eng evs ?s1 =
          ?s1\<lparr>component := applyEdits evs (component ?s1),
               pendingRun := Some (lastEditTime t0 evs + quietPeriod)\<rparr>"
    by (rule onEdits_burst [OF assms(2)]) simp
  with first have burst: "onEdits eng ((t0, e0) # evs) s = ?end"
    by simp
  have pending: "pendingRun ?end = Some (lastEditTime t0 evs + quietPeriod)"
    by simp
  have waiting: "now < lastEditTime t0 evs + quietPeriod \<longrightarrow> elapse eng now ?end = ?end"
    using elapse_before_due [OF pending] by blast
  have fired: "lastEditTime t0 evs + quietPeriod \<le> now \<longrightarrow>
      elapse eng now ?end =
        s\<lparr>component :=
             fst (performTransformation eng (applyEdits ((t0, e0) # evs) (component s))),
          pendingRun := None,
          completedRuns := completedRuns s @
             [(xmlCode (applyEdits ((t0, e0) # evs) (component s)),
               xsltCode (applyEdits ((t0, e0) # evs) (component s)))]\<rparr>"
    using elapse_when_due [OF pending, of now eng] by simp
  from burst waiting fired show ?thesis
    by simp
qed

text \<open>
  A burst on the concrete host: a stale run is pending for time 40; the user types
  \<^verbatim>\<open><a\<close> at 0, completes it to \<^verbatim>\<open><a/>\<close> at 120 and pastes the stylesheet at 400. At 650
  nothing has run; at 700 one run has, on \<^verbatim>\<open><a/>\<close> and the stylesheet.
\<close>

theorem C3_burst_witness:
  "elapse demo_engine 650
     (onEdits demo_engine [(0, EditXml ''<a''), (120, EditXml ''<a/>''), (400, EditXslt demoSheetText)]
        \<lparr>component = \<lparr>xmlCode = ''<b/>'', xsltCode = ''<b/>'', output = [], error = None\<rparr>,
         pendingRun = Some 40, completedRuns = []\<rparr>)
   = \<lparr>component = \<lparr>xmlCode = ''<a/>'', xsltCode = demoSheetText, output = [], error = None\<rparr>,
      pendingRun = Some 700, completedRuns = []\<rparr>
   \<and> elapse demo_engine 700
     (onEdits demo_engine [(0, EditXml ''<a''), (120, EditXml ''<a/>''), (400, EditXslt demoSheetText)]
        \<lparr>component = \<lparr>xmlCode = ''<b/>'', xsltCode = ''<b/>'', output = [], error = None\<rparr>,
         pendingRun = Some 40, completedRuns = []\<rparr>)
   = \<lparr>component = \<lparr>xmlCode = ''<a/>'', xsltCode = demoSheetText, output = ''<out/>'', error = None\<rparr>,
      pendingRun = None, completedRuns = [(''<a/>'', demoSheetText)]\<rparr>"
proof -
  let ?s = "\<lparr>component = \<lparr>xmlCode = ''<b/>'', xsltCode = ''<b/>'', output = [], error = None\<rparr>,
             pendingRun = Some (40::nat), completedRuns = []\<rparr>"
  let ?evs = "[(120::nat, EditXml ''<a/>''), (400, EditXslt demoSheetText)]"
  have stale: "case pendingRun ?s of None \<Rightarrow> True | Some due \<Rightarrow> 0 < due"
    by simp
  have spaced: "closelySpaced 0 ?evs"
    by (simp add: quietPeriod_def)
  have run: "fst (performTransformation demo_engine
        \<lparr>xmlCode = ''<a/>'', xsltCode = demoSheetText, output = [], error = None\<rparr>)
      = \<lparr>xmlCode = ''<a/>'', xsltCode = demoSheetText, output = ''<out/>'', error = None\<rparr>"
    by (simp add: performTransformation_def tryBlock_def Let_def demo_parse_simps
          demo_marker_simps demo_processor_simps demo_sheet_nonempty)
  have early: "elapse demo_engine 650 (onEdits demo_engine ((0, EditXml ''<a'') # ?evs) ?s)
      = \<lparr>component = \<lparr>xmlCode = ''<a/>'', xsltCode = demoSheetText, output = [], error = None\<rparr>,
         pendingRun = Some 700, completedRuns = []\<rparr>"
    using C3_burst_runs_once_on_final_buffers
            [OF stale spaced, where eng = demo_engine and ?e0.0 = "EditXml ''<a''" and now = 650]
    by (simp add: quietPeriod_def elapse_def del: onEdits.simps)
  have late: "elapse demo_engine 700 (onEdits demo_engine ((0, EditXml ''<a'') # ?evs) ?s)
      = \<lparr>component = \<lparr>xmlCode = ''<a/>'', xsltCode = demoSheetText, output = ''<out/>'', error = None\<rparr>,
         pendingRun = None, completedRuns = [(''<a/>'', demoSheetText)]\<rparr>"
    using run C3_burst_runs_once_on_final_buffers
            [OF stale spaced, where eng = demo_engine and ?e0.0 = "EditXml ''<a''" and now = 700]
    by (simp add: quietPeriod_def elapse_def del: onEdits.simps)
  from early late show ?thesis by simp
qed

end
